theory Spec2Isabelle
  imports Main "HOL-Library.Product_Lexorder" "HOL-Library.Multiset"
begin

section \<open>Entity model (models.py)\<close>

text \<open>
  Python strings are modelled as \<open>string\<close>, read as sequences of code points below 256.
  Python integers are \<open>int\<close>. A naive \<open>datetime\<close> is a record of its seven fields.
\<close>

datatype py_error = ValueError | KeyError | TypeError | AttributeError

record datetime =
  year :: nat
  month :: nat
  day :: nat
  hour :: nat
  minute :: nat
  second :: nat
  microsecond :: nat

record Book =
  Book_id :: string
  title :: string
  author :: string
  published_year :: int
  genre :: string
  memo :: string

record Diary =
  Diary_id :: string
  book_id :: string
  date :: datetime
  content :: string

text \<open>
  The value a dictionary record or a decoded JSON document holds. A \<open>JObj\<close> carries the
  items of a Python dict in iteration order (keys pairwise distinct). Of a float only
  whether it is zero is ever read; it is carried as that flag and its literal.
\<close>

datatype json =
    JNull
  | JBool bool
  | JInt int
  | JFloat bool string
  | JStr string
  | JArr "json list"
  | JObj "(string \<times> json) list"

text \<open>
  The result of building objects from a dictionary record: the Python code raises, or it
  returns a value of the annotated types, or it returns without raising an object whose
  fields do not have the annotated types (\<open>IllTyped\<close>: the code performs no type check,
  and such objects have no counterpart in the typed records above).
\<close>

datatype 'a decoded = Raised py_error | IllTyped | Decoded 'a

definition as_str :: "json \<Rightarrow> string option" where
  "as_str v = (case v of JStr s \<Rightarrow> Some s | _ \<Rightarrow> None)"

definition as_int :: "json \<Rightarrow> int option" where
  "as_int v = (case v of JInt i \<Rightarrow> Some i | _ \<Rightarrow> None)"

text \<open>
  The truth value Python gives a decoded JSON value: \<open>None\<close>, \<open>False\<close>, zero, the empty
  string, the empty list and the empty dict are false.
\<close>

definition truthy :: "json \<Rightarrow> bool" where
  "truthy v =
     (case v of
        JNull \<Rightarrow> False
      | JBool b \<Rightarrow> b
      | JInt i \<Rightarrow> i \<noteq> 0
      | JFloat z lit \<Rightarrow> \<not> z
      | JStr s \<Rightarrow> s \<noteq> []
      | JArr xs \<Rightarrow> xs \<noteq> []
      | JObj kv \<Rightarrow> kv \<noteq> [])"

text \<open>
  The id read from a record, as the constructors use it in \<open>x if x else str(uuid.uuid4())\<close>:
  a false value of any type acts as no id given, a true string is the id, and a true
  value of another type is kept as the id, which is then not a string (the outer \<open>None\<close>).
\<close>

definition id_arg :: "json \<Rightarrow> string option option" where
  "id_arg v = (if truthy v then map_option Some (as_str v) else Some None)"

subsection \<open>Book\<close>

text \<open>
  \<open>Book.__init__\<close>: \<open>self.id = book_id if book_id else str(uuid.uuid4())\<close>. The last
  argument is the string \<open>str(uuid.uuid4())\<close> evaluates to when it is called.
\<close>

definition Book_init ::
  "string \<Rightarrow> string \<Rightarrow> int \<Rightarrow> string \<Rightarrow> string \<Rightarrow> string option \<Rightarrow> string \<Rightarrow> Book" where
  "Book_init t a y g m bid uuid4 =
     \<lparr>Book_id = (case bid of None \<Rightarrow> uuid4 | Some i \<Rightarrow> if i \<noteq> [] then i else uuid4),
      title = t, author = a, published_year = y, genre = g, memo = m\<rparr>"

definition Book_to_dict :: "Book \<Rightarrow> json" where
  "Book_to_dict b = JObj
     [(''id'', JStr (Book_id b)),
      (''title'', JStr (title b)),
      (''author'', JStr (author b)),
      (''published_year'', JInt (published_year b)),
      (''genre'', JStr (genre b)),
      (''memo'', JStr (memo b))]"

text \<open>
  \<open>Book.from_dict\<close>: the keyword arguments are evaluated in the order written, so a
  missing key raises \<open>KeyError\<close> in that order; \<open>genre\<close> and \<open>memo\<close> default to the empty
  string. Subscripting anything but a dict with a string raises \<open>TypeError\<close>.
\<close>

definition Book_from_dict :: "string \<Rightarrow> json \<Rightarrow> Book decoded" where
  "Book_from_dict uuid4 data =
     (case data of
        JObj kv \<Rightarrow>
          (case map_of kv ''title'' of None \<Rightarrow> Raised KeyError | Some t \<Rightarrow>
          (case map_of kv ''author'' of None \<Rightarrow> Raised KeyError | Some a \<Rightarrow>
          (case map_of kv ''published_year'' of None \<Rightarrow> Raised KeyError | Some y \<Rightarrow>
          (let g = (case map_of kv ''genre'' of None \<Rightarrow> JStr [] | Some v \<Rightarrow> v);
               m = (case map_of kv ''memo'' of None \<Rightarrow> JStr [] | Some v \<Rightarrow> v)
           in
          (case map_of kv ''id'' of None \<Rightarrow> Raised KeyError | Some i \<Rightarrow>
          (case (as_str t, as_str a, as_int y, as_str g, as_str m, id_arg i) of
             (Some t', Some a', Some y', Some g', Some m', Some bid) \<Rightarrow>
               Decoded (Book_init t' a' y' g' m' bid uuid4)
           | _ \<Rightarrow> IllTyped))))))
      | _ \<Rightarrow> Raised TypeError)"

subsection \<open>Dates: strftime and strptime with the format \<open>%Y-%m-%d\<close>\<close>

text \<open>
  \<open>Diary.DATE_FORMAT\<close> is \<open>"%Y-%m-%d"\<close>. \<open>strftime\<close> hands the format to the C
  library, which writes month and day with two digits, zero-filled, and the year as a
  decimal number with no leading zeros: 999 for the year 999.
\<close>

definition digit_char :: "nat \<Rightarrow> char" where
  "digit_char n = ''0123456789'' ! (n mod 10)"

definition pad2 :: "nat \<Rightarrow> string" where
  "pad2 n = [digit_char (n div 10), digit_char n]"

fun decimal :: "nat \<Rightarrow> string" where
  "decimal n = (if n < 10 then [digit_char n] else decimal (n div 10) @ [digit_char n])"

declare decimal.simps [simp del]

definition strftime :: "datetime \<Rightarrow> string" where
  "strftime dt = decimal (year dt) @ ''-'' @ pad2 (month dt) @ ''-'' @ pad2 (day dt)"

definition digit_val :: "char \<Rightarrow> nat option" where
  "digit_val c =
     map_of [(CHR ''0'', 0), (CHR ''1'', 1), (CHR ''2'', 2), (CHR ''3'', 3), (CHR ''4'', 4),
             (CHR ''5'', 5), (CHR ''6'', 6), (CHR ''7'', 7), (CHR ''8'', 8), (CHR ''9'', 9)] c"

definition is_digit :: "char \<Rightarrow> bool" where
  "is_digit c = (digit_val c \<noteq> None)"

definition nonzero_digit :: "char \<Rightarrow> bool" where
  "nonzero_digit c = (case digit_val c of None \<Rightarrow> False | Some n \<Rightarrow> 0 < n)"

definition digit_num :: "char \<Rightarrow> nat" where
  "digit_num c = (case digit_val c of None \<Rightarrow> 0 | Some n \<Rightarrow> n)"

definition is_leap :: "nat \<Rightarrow> bool" where
  "is_leap y = (y mod 4 = 0 \<and> (y mod 100 \<noteq> 0 \<or> y mod 400 = 0))"

definition days_in_month :: "nat \<Rightarrow> nat \<Rightarrow> nat" where
  "days_in_month y m =
     (if m = 2 then (if is_leap y then 29 else 28)
      else if m = 4 \<or> m = 6 \<or> m = 9 \<or> m = 11 then 30 else 31)"

text \<open>The values a Python \<open>datetime\<close> can hold (\<open>MINYEAR = 1\<close>, \<open>MAXYEAR = 9999\<close>).\<close>

definition valid_datetime :: "datetime \<Rightarrow> bool" where
  "valid_datetime dt =
     (1 \<le> year dt \<and> year dt \<le> 9999 \<and> 1 \<le> month dt \<and> month dt \<le> 12
      \<and> 1 \<le> day dt \<and> day dt \<le> days_in_month (year dt) (month dt)
      \<and> hour dt < 24 \<and> minute dt < 60 \<and> second dt < 60 \<and> microsecond dt < 1000000)"

definition midnight :: "datetime \<Rightarrow> datetime" where
  "midnight dt = dt\<lparr>hour := 0, minute := 0, second := 0, microsecond := 0\<rparr>"

text \<open>A datetime that is a calendar date: its time of day is midnight.\<close>

definition no_time :: "datetime \<Rightarrow> bool" where
  "no_time dt = (hour dt = 0 \<and> minute dt = 0 \<and> second dt = 0 \<and> microsecond dt = 0)"

text \<open>
  \<open>strptime\<close> matches the string against the regular expression the format compiles to:
  \<open>%Y\<close> is \<open>\d\d\d\d\<close>, \<open>%m\<close> is \<open>1[0-2]|0[1-9]|[1-9]\<close> and \<open>%d\<close> is
  \<open>3[0-1]|[1-2]\d|0[1-9]|[1-9]| [1-9]\<close>, alternatives tried in this order. Each parser
  returns the number read and the rest of the string.
\<close>

fun parse_year :: "string \<Rightarrow> (nat \<times> string) option" where
  "parse_year (a # b # c # d # rest) =
     (if is_digit a \<and> is_digit b \<and> is_digit c \<and> is_digit d
      then Some (1000 * digit_num a + 100 * digit_num b + 10 * digit_num c + digit_num d, rest)
      else None)"
| "parse_year _ = None"

fun parse_month :: "string \<Rightarrow> (nat \<times> string) option" where
  "parse_month (a # b # rest) =
     (if a = CHR ''1'' \<and> (b = CHR ''0'' \<or> b = CHR ''1'' \<or> b = CHR ''2'')
        then Some (10 + digit_num b, rest)
      else if a = CHR ''0'' \<and> nonzero_digit b then Some (digit_num b, rest)
      else if nonzero_digit a then Some (digit_num a, b # rest)
      else None)"
| "parse_month [a] = (if nonzero_digit a then Some (digit_num a, []) else None)"
| "parse_month [] = None"

fun parse_day :: "string \<Rightarrow> (nat \<times> string) option" where
  "parse_day (a # b # rest) =
     (if a = CHR ''3'' \<and> (b = CHR ''0'' \<or> b = CHR ''1'') then Some (30 + digit_num b, rest)
      else if (a = CHR ''1'' \<or> a = CHR ''2'') \<and> is_digit b
        then Some (10 * digit_num a + digit_num b, rest)
      else if a = CHR ''0'' \<and> nonzero_digit b then Some (digit_num b, rest)
      else if nonzero_digit a then Some (digit_num a, b # rest)
      else if a = CHR '' '' \<and> nonzero_digit b then Some (digit_num b, rest)
      else None)"
| "parse_day [a] = (if nonzero_digit a then Some (digit_num a, []) else None)"
| "parse_day [] = None"

fun expect_char :: "char \<Rightarrow> string \<Rightarrow> string option" where
  "expect_char c [] = None"
| "expect_char c (x # xs) = (if x = c then Some xs else None)"

text \<open>
  \<open>datetime.strptime(s, "%Y-%m-%d")\<close>; \<open>None\<close> is \<open>ValueError\<close>: the string does not
  match, data remain after the match, or the numbers are not a date (year 0, 30 February).
\<close>

definition strptime :: "string \<Rightarrow> datetime option" where
  "strptime s =
     (case parse_year s of None \<Rightarrow> None | Some (y, r1) \<Rightarrow>
     (case expect_char CHR ''-'' r1 of None \<Rightarrow> None | Some r2 \<Rightarrow>
     (case parse_month r2 of None \<Rightarrow> None | Some (m, r3) \<Rightarrow>
     (case expect_char CHR ''-'' r3 of None \<Rightarrow> None | Some r4 \<Rightarrow>
     (case parse_day r4 of None \<Rightarrow> None | Some (d, r5) \<Rightarrow>
        if r5 = [] \<and> 1 \<le> y \<and> d \<le> days_in_month y m
        then Some \<lparr>year = y, month = m, day = d,
                   hour = 0, minute = 0, second = 0, microsecond = 0\<rparr>
        else None)))))"

subsection \<open>Diary\<close>

text \<open>
  \<open>Diary.__init__\<close>: \<open>self.id = diary_id if diary_id else str(uuid.uuid4())\<close> and
  \<open>self.date = date if date else datetime.now()\<close> (a \<open>datetime\<close> is always true). The
  last two arguments are what \<open>str(uuid.uuid4())\<close> and \<open>datetime.now()\<close> evaluate to
  when they are called.
\<close>

definition Diary_init ::
  "string \<Rightarrow> string \<Rightarrow> datetime option \<Rightarrow> string option \<Rightarrow> string \<Rightarrow> datetime \<Rightarrow> Diary" where
  "Diary_init bid c dt did uuid4 now =
     \<lparr>Diary_id = (case did of None \<Rightarrow> uuid4 | Some i \<Rightarrow> if i \<noteq> [] then i else uuid4),
      book_id = bid,
      date = (case dt of None \<Rightarrow> now | Some d \<Rightarrow> d),
      content = c\<rparr>"

definition Diary_to_dict :: "Diary \<Rightarrow> json" where
  "Diary_to_dict d = JObj
     [(''id'', JStr (Diary_id d)),
      (''book_id'', JStr (book_id d)),
      (''date'', JStr (strftime (date d))),
      (''content'', JStr (content d))]"

text \<open>
  \<open>Diary.from_dict\<close>: the date is parsed first (\<open>KeyError\<close> without the key, \<open>TypeError\<close>
  when the value is not a string, \<open>ValueError\<close> when it does not parse), then the keyword
  arguments are read in the order written.
\<close>

definition Diary_from_dict :: "string \<Rightarrow> datetime \<Rightarrow> json \<Rightarrow> Diary decoded" where
  "Diary_from_dict uuid4 now data =
     (case data of
        JObj kv \<Rightarrow>
          (case map_of kv ''date'' of None \<Rightarrow> Raised KeyError | Some dv \<Rightarrow>
          (case as_str dv of None \<Rightarrow> Raised TypeError | Some ds \<Rightarrow>
          (case strptime ds of None \<Rightarrow> Raised ValueError | Some dt \<Rightarrow>
          (case map_of kv ''book_id'' of None \<Rightarrow> Raised KeyError | Some b \<Rightarrow>
          (case map_of kv ''content'' of None \<Rightarrow> Raised KeyError | Some c \<Rightarrow>
          (case map_of kv ''id'' of None \<Rightarrow> Raised KeyError | Some i \<Rightarrow>
          (case (as_str b, as_str c, id_arg i) of
             (Some b', Some c', Some did) \<Rightarrow>
               Decoded (Diary_init b' c' (Some dt) did uuid4 now)
           | _ \<Rightarrow> IllTyped)))))))
      | _ \<Rightarrow> Raised TypeError)"

section \<open>Repository (book_manager.py)\<close>

subsection \<open>Dictionaries\<close>

text \<open>
  A Python dict keeps its keys in insertion order: it is the list of its items.
  \<open>d[k] = v\<close> replaces the value in place when \<open>k\<close> is present and appends the item
  otherwise; \<open>del d[k]\<close> removes the item; \<open>d[k]\<close> is \<open>map_of d k\<close>.
\<close>

definition dict_has :: "'k \<Rightarrow> ('k \<times> 'v) list \<Rightarrow> bool" where
  "dict_has k d = (k \<in> set (map fst d))"

fun dict_set :: "'k \<Rightarrow> 'v \<Rightarrow> ('k \<times> 'v) list \<Rightarrow> ('k \<times> 'v) list" where
  "dict_set k v [] = [(k, v)]"
| "dict_set k v (p # d) = (if fst p = k then (k, v) # d else p # dict_set k v d)"

definition dict_del :: "'k \<Rightarrow> ('k \<times> 'v) list \<Rightarrow> ('k \<times> 'v) list" where
  "dict_del k d = filter (\<lambda>p. fst p \<noteq> k) d"

subsection \<open>State and persistence\<close>

text \<open>
  What is found at the path \<open>self.data_file\<close>: no file, a file that cannot be opened or
  that \<open>json.load\<close> rejects, or a file \<open>json.load\<close> reads as the given value.
\<close>

datatype file_content = Absent | Unparsable | Parsed json

text \<open>
  What happens when \<open>save_data\<close> opens and writes the file: the document is written, or an
  exception is raised and the file is left with the given content.
\<close>

datatype io_outcome = Written | Failed file_content

record BookManager =
  books :: "(string \<times> Book) list"
  diaries :: "(string \<times> Diary list) list"
  data_file :: file_content

text \<open>The dictionary \<open>data\<close> that \<open>save_data\<close> builds and dumps.\<close>

definition dump_data :: "BookManager \<Rightarrow> json" where
  "dump_data s = JObj
     [(''books'', JObj (map (\<lambda>(k, b). (k, Book_to_dict b)) (books s))),
      (''diaries'', JObj (map (\<lambda>(k, ds). (k, JArr (map Diary_to_dict ds))) (diaries s)))]"

definition save_data :: "io_outcome \<Rightarrow> BookManager \<Rightarrow> bool \<times> BookManager" where
  "save_data io s =
     (case io of
        Written \<Rightarrow> (True, s\<lparr>data_file := Parsed (dump_data s)\<rparr>)
      | Failed f \<Rightarrow> (False, s\<lparr>data_file := f\<rparr>))"

text \<open>
  A comprehension over a list: the elements are built in order and the first exception
  ends it. The index selects the value \<open>uuid4\<close> would generate for that element.
\<close>

fun decode_list :: "(nat \<Rightarrow> 'a \<Rightarrow> 'b decoded) \<Rightarrow> nat \<Rightarrow> 'a list \<Rightarrow> 'b list decoded" where
  "decode_list f i [] = Decoded []"
| "decode_list f i (x # xs) =
     (case f i x of
        Raised e \<Rightarrow> Raised e
      | IllTyped \<Rightarrow> (case decode_list f (Suc i) xs of Raised e \<Rightarrow> Raised e | _ \<Rightarrow> IllTyped)
      | Decoded y \<Rightarrow>
          (case decode_list f (Suc i) xs of
             Raised e \<Rightarrow> Raised e
           | IllTyped \<Rightarrow> IllTyped
           | Decoded ys \<Rightarrow> Decoded (y # ys)))"

text \<open>
  \<open>data.get(name, {}).items()\<close>: \<open>AttributeError\<close> when \<open>data\<close> or the value under
  \<open>name\<close> is not a dict.
\<close>

definition section_items :: "string \<Rightarrow> json \<Rightarrow> py_error + (string \<times> json) list" where
  "section_items name data =
     (case data of
        JObj kv \<Rightarrow>
          (case map_of kv name of
             None \<Rightarrow> Inr []
           | Some (JObj items) \<Rightarrow> Inr items
           | Some _ \<Rightarrow> Inl AttributeError)
      | _ \<Rightarrow> Inl AttributeError)"

text \<open>
  Iterating a decoded JSON value: a list gives its elements, a dict its keys, a string its
  characters; anything else is not iterable (\<open>None\<close> is \<open>TypeError\<close>).
\<close>

definition py_iter :: "json \<Rightarrow> json list option" where
  "py_iter v =
     (case v of
        JArr xs \<Rightarrow> Some xs
      | JObj kv \<Rightarrow> Some (map (\<lambda>p. JStr (fst p)) kv)
      | JStr s \<Rightarrow> Some (map (\<lambda>c. JStr [c]) s)
      | _ \<Rightarrow> None)"

definition decode_books :: "(nat \<Rightarrow> nat \<Rightarrow> string) \<Rightarrow> json \<Rightarrow> (string \<times> Book) list decoded" where
  "decode_books uuids data =
     (case section_items ''books'' data of
        Inl e \<Rightarrow> Raised e
      | Inr items \<Rightarrow>
          decode_list (\<lambda>i (k, v). map_decoded (Pair k) (Book_from_dict (uuids 0 i) v)) 0 items)"

definition decode_diaries ::
  "(nat \<Rightarrow> nat \<Rightarrow> string) \<Rightarrow> datetime \<Rightarrow> json \<Rightarrow> (string \<times> Diary list) list decoded" where
  "decode_diaries uuids now data =
     (case section_items ''diaries'' data of
        Inl e \<Rightarrow> Raised e
      | Inr items \<Rightarrow>
          decode_list
            (\<lambda>j (k, v).
               case py_iter v of
                 None \<Rightarrow> Raised TypeError
               | Some xs \<Rightarrow>
                   map_decoded (Pair k)
                     (decode_list (\<lambda>i x. Diary_from_dict (uuids (Suc j) i) now x) 0 xs))
            0 items)"

text \<open>
  What \<open>load_data\<close> leaves behind: the value it returns and the two dictionaries of
  the repository. A dictionary is \<open>None\<close> when the code has stored in it objects whose
  fields are not of the annotated types; the file is only read.
\<close>

record load_result =
  ok :: bool
  books_after :: "(string \<times> Book) list option"
  diaries_after :: "(string \<times> Diary list) list option"

definition raises :: "'a decoded \<Rightarrow> bool" where
  "raises r = (case r of Raised e \<Rightarrow> True | _ \<Rightarrow> False)"

definition typed :: "'a decoded \<Rightarrow> 'a option" where
  "typed r = (case r of Decoded x \<Rightarrow> Some x | _ \<Rightarrow> None)"

text \<open>
  \<open>load_data\<close>. Without a file it returns \<open>False\<close> at once. \<open>self.books\<close> is
  assigned as soon as the books are built, before the diaries are; every exception is
  caught and reported as \<open>False\<close>.
\<close>

definition load_data ::
  "(nat \<Rightarrow> nat \<Rightarrow> string) \<Rightarrow> datetime \<Rightarrow> BookManager \<Rightarrow> load_result" where
  "load_data uuids now s =
     (case data_file s of
        Absent \<Rightarrow>
          \<lparr>ok = False, books_after = Some (books s), diaries_after = Some (diaries s)\<rparr>
      | Unparsable \<Rightarrow>
          \<lparr>ok = False, books_after = Some (books s), diaries_after = Some (diaries s)\<rparr>
      | Parsed data \<Rightarrow>
          (if raises (decode_books uuids data)
           then \<lparr>ok = False, books_after = Some (books s), diaries_after = Some (diaries s)\<rparr>
           else if raises (decode_diaries uuids now data)
           then \<lparr>ok = False, books_after = typed (decode_books uuids data),
                 diaries_after = Some (diaries s)\<rparr>
           else \<lparr>ok = True, books_after = typed (decode_books uuids data),
                 diaries_after = typed (decode_diaries uuids now data)\<rparr>))"

text \<open>
  \<open>BookManager.__init__\<close>: empty dictionaries, then \<open>load_data\<close>, its result ignored.
  \<open>None\<close> when the repository built holds objects that are not of the annotated types.
\<close>

definition BookManager_init ::
  "(nat \<Rightarrow> nat \<Rightarrow> string) \<Rightarrow> datetime \<Rightarrow> file_content \<Rightarrow> BookManager option" where
  "BookManager_init uuids now f =
     (let r = load_data uuids now \<lparr>books = [], diaries = [], data_file = f\<rparr>
      in case (books_after r, diaries_after r) of
           (Some b, Some d) \<Rightarrow> Some \<lparr>books = b, diaries = d, data_file = f\<rparr>
         | _ \<Rightarrow> None)"

subsection \<open>Operations on books\<close>

definition add_book :: "io_outcome \<Rightarrow> Book \<Rightarrow> BookManager \<Rightarrow> string \<times> BookManager" where
  "add_book io book s =
     (let s1 = s\<lparr>books := dict_set (Book_id book) book (books s)\<rparr>;
          s2 = (if \<not> dict_has (Book_id book) (diaries s1)
                then s1\<lparr>diaries := dict_set (Book_id book) [] (diaries s1)\<rparr> else s1)
      in (Book_id book, snd (save_data io s2)))"

definition delete_book :: "io_outcome \<Rightarrow> string \<Rightarrow> BookManager \<Rightarrow> bool \<times> BookManager" where
  "delete_book io bid s =
     (if \<not> dict_has bid (books s) then (False, s)
      else
        let s1 = s\<lparr>books := dict_del bid (books s)\<rparr>;
            s2 = (if dict_has bid (diaries s1)
                  then s1\<lparr>diaries := dict_del bid (diaries s1)\<rparr> else s1)
        in (True, snd (save_data io s2)))"

definition get_all_books :: "BookManager \<Rightarrow> Book list" where
  "get_all_books s = map snd (books s)"

text \<open>
  \<open>str.lower\<close> on code points below 256: the letters A to Z and the capital letters from
  192 to 222 (215, the multiplication sign, apart) move up by 32.
\<close>

definition lower_char :: "char \<Rightarrow> char" where
  "lower_char c =
     (let n = (of_char c :: nat)
      in if (65 \<le> n \<and> n \<le> 90) \<or> (192 \<le> n \<and> n \<le> 222 \<and> n \<noteq> 215)
         then char_of (n + 32) else c)"

definition lower :: "string \<Rightarrow> string" where
  "lower s = map lower_char s"

text \<open>\<open>q in s\<close> on strings: \<open>q\<close> occurs in \<open>s\<close> as a contiguous block.\<close>

fun is_substring :: "string \<Rightarrow> string \<Rightarrow> bool" where
  "is_substring q [] = (q = [])"
| "is_substring q (c # cs) = (take (length q) (c # cs) = q \<or> is_substring q cs)"

definition search_books :: "string \<Rightarrow> BookManager \<Rightarrow> Book list" where
  "search_books query s =
     (let q = lower query
      in filter
           (\<lambda>book. is_substring q (lower (title book))
                  \<or> is_substring q (lower (author book))
                  \<or> is_substring q (lower (genre book))
                  \<or> is_substring q (lower (memo book)))
           (map snd (books s)))"

subsection \<open>Operations on diaries\<close>

text \<open>
  \<open>add_diary\<close> raises \<open>ValueError\<close> before it changes anything when the book is unknown.
  The lookup \<open>self.diaries[diary.book_id]\<close> comes after the key has been ensured.
\<close>

definition add_diary ::
  "io_outcome \<Rightarrow> Diary \<Rightarrow> BookManager \<Rightarrow> (py_error + string) \<times> BookManager" where
  "add_diary io diary s =
     (if \<not> dict_has (book_id diary) (books s) then (Inl ValueError, s)
      else
        let s1 = (if \<not> dict_has (book_id diary) (diaries s)
                  then s\<lparr>diaries := dict_set (book_id diary) [] (diaries s)\<rparr> else s)
        in (case map_of (diaries s1) (book_id diary) of
              None \<Rightarrow> (Inl KeyError, s1)
            | Some ds \<Rightarrow>
                (Inr (Diary_id diary),
                 snd (save_data io
                        (s1\<lparr>diaries := dict_set (book_id diary) (ds @ [diary]) (diaries s1)\<rparr>)))))"

text \<open>
  The loop of \<open>update_diary\<close>: the first entry with the id of \<open>diary\<close> is replaced;
  \<open>None\<close> when the loop ends without finding one.
\<close>

fun replace_diary :: "Diary \<Rightarrow> Diary list \<Rightarrow> Diary list option" where
  "replace_diary diary [] = None"
| "replace_diary diary (d # ds) =
     (if Diary_id d = Diary_id diary then Some (diary # ds)
      else map_option ((#) d) (replace_diary diary ds))"

definition update_diary :: "io_outcome \<Rightarrow> Diary \<Rightarrow> BookManager \<Rightarrow> bool \<times> BookManager" where
  "update_diary io diary s =
     (if \<not> dict_has (book_id diary) (diaries s) then (False, s)
      else
        (case map_of (diaries s) (book_id diary) of
           None \<Rightarrow> (False, s)
         | Some ds \<Rightarrow>
             (case replace_diary diary ds of
                None \<Rightarrow> (False, s)
              | Some ds' \<Rightarrow>
                  (True,
                   snd (save_data io
                          (s\<lparr>diaries := dict_set (book_id diary) ds' (diaries s)\<rparr>))))))"

text \<open>
  The two loops of \<open>delete_diary\<close>: the inner one removes the first entry with the id from
  one list, the outer one goes through the dictionary in order and stops at the first list
  that has one.
\<close>

fun remove_diary :: "string \<Rightarrow> Diary list \<Rightarrow> Diary list option" where
  "remove_diary i [] = None"
| "remove_diary i (d # ds) =
     (if Diary_id d = i then Some ds else map_option ((#) d) (remove_diary i ds))"

fun remove_from_dict ::
  "string \<Rightarrow> (string \<times> Diary list) list \<Rightarrow> (string \<times> Diary list) list option" where
  "remove_from_dict i [] = None"
| "remove_from_dict i ((k, ds) # rest) =
     (case remove_diary i ds of
        Some ds' \<Rightarrow> Some ((k, ds') # rest)
      | None \<Rightarrow> map_option ((#) (k, ds)) (remove_from_dict i rest))"

definition delete_diary :: "io_outcome \<Rightarrow> string \<Rightarrow> BookManager \<Rightarrow> bool \<times> BookManager" where
  "delete_diary io i s =
     (case remove_from_dict i (diaries s) of
        None \<Rightarrow> (False, s)
      | Some ds' \<Rightarrow> (True, snd (save_data io (s\<lparr>diaries := ds'\<rparr>))))"

text \<open>
  Naive datetimes compare field by field, the year first. \<open>sorted(xs, key, reverse=True)\<close>
  reverses the list, sorts it stably in ascending order and reverses the result.
\<close>

definition dt_key :: "datetime \<Rightarrow> nat \<times> nat \<times> nat \<times> nat \<times> nat \<times> nat \<times> nat" where
  "dt_key dt = (year dt, month dt, day dt, hour dt, minute dt, second dt, microsecond dt)"

definition sorted_reverse :: "('a \<Rightarrow> 'k::linorder) \<Rightarrow> 'a list \<Rightarrow> 'a list" where
  "sorted_reverse f xs = rev (sort_key f (rev xs))"

definition get_diaries_for_book :: "string \<Rightarrow> BookManager \<Rightarrow> Diary list" where
  "get_diaries_for_book bid s =
     (if \<not> dict_has bid (diaries s) then []
      else (case map_of (diaries s) bid of
              None \<Rightarrow> []
            | Some ds \<Rightarrow> sorted_reverse (\<lambda>d. dt_key (date d)) ds))"

subsection \<open>Reachable states\<close>

text \<open>
  The states the five mutating operations on diaries and books reach from the empty
  repository, whatever the file holds and whatever happens when it is written.
\<close>

inductive reachable :: "BookManager \<Rightarrow> bool" where
  empty: "reachable \<lparr>books = [], diaries = [], data_file = f\<rparr>"
| add_book: "reachable s \<Longrightarrow> reachable (snd (add_book io book s))"
| add_diary: "reachable s \<Longrightarrow> reachable (snd (add_diary io diary s))"
| update_diary: "reachable s \<Longrightarrow> reachable (snd (update_diary io diary s))"
| delete_diary: "reachable s \<Longrightarrow> reachable (snd (delete_diary io i s))"
| delete_book: "reachable s \<Longrightarrow> reachable (snd (delete_book io bid s))"

text \<open>
  Every entry stored under a key has that key as its book id; every key of \<open>books\<close> is
  a key of \<open>diaries\<close>.
\<close>

definition entries_owned :: "(string \<times> Diary list) list \<Rightarrow> bool" where
  "entries_owned d = (\<forall>(k, ds) \<in> set d. \<forall>x \<in> set ds. book_id x = k)"

definition owned_diaries :: "BookManager \<Rightarrow> bool" where
  "owned_diaries s =
     (entries_owned (diaries s) \<and> (\<forall>k. dict_has k (books s) \<longrightarrow> dict_has k (diaries s)))"

subsection \<open>Example data\<close>

text \<open>The book and the diary entries of the end-to-end scenario, used to run the model.\<close>

definition dune :: Book where
  "dune = \<lparr>Book_id = ''B1'', title = ''Dune'', author = ''Herbert'',
            published_year = 1965, genre = [], memo = []\<rparr>"

definition at_time :: "nat \<Rightarrow> nat \<Rightarrow> nat \<Rightarrow> nat \<Rightarrow> datetime" where
  "at_time y m d h = \<lparr>year = y, month = m, day = d,
                       hour = h, minute = 0, second = 0, microsecond = 0\<rparr>"

definition entry :: "string \<Rightarrow> datetime \<Rightarrow> Diary" where
  "entry i dt = \<lparr>Diary_id = i, book_id = ''B1'', date = dt, content = ''Great start''\<rparr>"

definition empty_store :: BookManager where
  "empty_store = \<lparr>books = [], diaries = [], data_file = Absent\<rparr>"

definition dune_store :: BookManager where
  "dune_store = snd (add_book Written dune empty_store)"

definition shelf :: BookManager where
  "shelf = \<lparr>books = [(''B1'', dune)],
            diaries = [(''B1'', [entry ''D1'' (at_time 2024 1 1 0), entry ''D2'' (at_time 2024 3 1 0),
                                 entry ''D3'' (at_time 2024 2 1 0), entry ''D4'' (at_time 2024 3 1 0)])],
            data_file = Absent\<rparr>"

definition dune_read :: BookManager where
  "dune_read = snd (add_diary Written (entry ''D1'' (at_time 2024 5 1 0)) dune_store)"

text \<open>
  A store whose records survive the file format: every book id and diary id is a
  non-empty string and every diary date is a valid calendar date of the year 1000 or
  later with no time of day.
\<close>

definition calendar_store :: "BookManager \<Rightarrow> bool" where
  "calendar_store s =
     ((\<forall>(k, b) \<in> set (books s). Book_id b \<noteq> [])
      \<and> (\<forall>(k, ds) \<in> set (diaries s).
            \<forall>d \<in> set ds. Diary_id d \<noteq> [] \<and> valid_datetime (date d)
                         \<and> 1000 \<le> year (date d) \<and> no_time (date d)))"

definition no_uuids :: "nat \<Rightarrow> nat \<Rightarrow> string" where
  "no_uuids i j = ''fresh''"

text \<open>Two entries written on the same day, the first in the morning, the second in the evening.\<close>

definition two_notes :: BookManager where
  "two_notes = \<lparr>books = [(''B1'', dune)],
                diaries = [(''B1'', [entry ''D1'' (at_time 2024 5 1 9),
                                     entry ''D2'' (at_time 2024 5 1 18)])],
                data_file = Absent\<rparr>"

text \<open>An entry dated in the year 999, as the form accepts it when typed 0999-01-01.\<close>

definition old_notes :: BookManager where
  "old_notes = \<lparr>books = [(''B1'', dune)],
                diaries = [(''B1'', [entry ''D1'' (at_time 999 1 1 0)])],
                data_file = Absent\<rparr>"




section \<open>Facts about dictionaries and saving\<close>

lemma dict_has_iff: "dict_has k d \<longleftrightarrow> map_of d k \<noteq> None"
  by (simp add: dict_has_def map_of_eq_None_iff)

lemma map_of_dict_set: "map_of (dict_set k v d) = (map_of d)(k \<mapsto> v)"
  by (induction d) (auto simp: fun_eq_iff)

lemma dict_set_twice: "dict_set k v (dict_set k w d) = dict_set k v d"
  by (induction d) auto

lemma dict_has_dict_set: "dict_has k' (dict_set k v d) \<longleftrightarrow> k' = k \<or> dict_has k' d"
  by (simp add: dict_has_iff map_of_dict_set)

lemma map_of_dict_del: "map_of (dict_del k d) = (map_of d)(k := None)"
  by (induction d) (auto simp: dict_del_def fun_eq_iff)

lemma dict_has_dict_del: "dict_has k' (dict_del k d) \<longleftrightarrow> k' \<noteq> k \<and> dict_has k' d"
  by (simp add: dict_has_iff map_of_dict_del)

lemma dump_data_data_file [simp]: "dump_data (s\<lparr>data_file := f\<rparr>) = dump_data s"
  by (simp add: dump_data_def)

lemma save_data_books [simp]: "books (snd (save_data io s)) = books s"
  by (simp add: save_data_def split: io_outcome.split)

lemma save_data_diaries [simp]: "diaries (snd (save_data io s)) = diaries s"
  by (simp add: save_data_def split: io_outcome.split)

lemma save_data_written:
  "data_file (snd (save_data Written s)) = Parsed (dump_data (snd (save_data Written s)))"
  by (simp add: save_data_def)

lemmas example_defs =
  dune_def at_time_def entry_def empty_store_def dune_store_def
  add_book_def save_data_def dump_data_def dict_has_def Let_def

section \<open>Adding a diary entry\<close>

lemma add_diary_unknown:
  "\<not> dict_has (book_id d) (books s) \<Longrightarrow> add_diary io d s = (Inl ValueError, s)"
  by (simp add: add_diary_def)

lemma add_diary_known:
  assumes "dict_has (book_id d) (books s)"
  shows "add_diary io d s =
    (Inr (Diary_id d),
     snd (save_data io (s\<lparr>diaries := dict_set (book_id d)
        ((case map_of (diaries s) (book_id d) of None \<Rightarrow> [] | Some ds \<Rightarrow> ds) @ [d])
        (diaries s)\<rparr>)))"
  using assms
  by (auto simp: add_diary_def Let_def dict_has_iff map_of_dict_set dict_set_twice
           split: option.splits)

text \<open>
  C1. When the book id of the entry is not a key of \<open>books\<close>, \<open>add_diary\<close> raises
  \<open>ValueError\<close> and the whole state, the file included, is what it was. When it is a
  key, \<open>add_diary\<close> returns the id of the entry, leaves \<open>books\<close> alone, puts the entry at
  the end of the list stored for that book (an absent list counting as empty) and leaves
  every other list alone, and the file written holds the dump of the new state.
\<close>

theorem add_diary_spec:
  "(\<not> dict_has (book_id d) (books s) \<longrightarrow> add_diary io d s = (Inl ValueError, s))
   \<and> (dict_has (book_id d) (books s) \<longrightarrow>
        fst (add_diary io d s) = Inr (Diary_id d)
      \<and> books (snd (add_diary io d s)) = books s
      \<and> diaries (snd (add_diary io d s))
          = dict_set (book_id d)
              ((case map_of (diaries s) (book_id d) of None \<Rightarrow> [] | Some ds \<Rightarrow> ds) @ [d])
              (diaries s)
      \<and> map_of (diaries (snd (add_diary io d s))) (book_id d)
          = Some ((case map_of (diaries s) (book_id d) of None \<Rightarrow> [] | Some ds \<Rightarrow> ds) @ [d])
      \<and> (\<forall>k. k \<noteq> book_id d \<longrightarrow>
            map_of (diaries (snd (add_diary io d s))) k = map_of (diaries s) k)
      \<and> (io = Written \<longrightarrow>
            data_file (snd (add_diary io d s)) = Parsed (dump_data (snd (add_diary io d s)))))"
proof (intro conjI impI)
  assume "\<not> dict_has (book_id d) (books s)"
  then show "add_diary io d s = (Inl ValueError, s)" by (rule add_diary_unknown)
next
  assume h: "dict_has (book_id d) (books s)"
  note eq = add_diary_known [OF h, of io]
  show "fst (add_diary io d s) = Inr (Diary_id d)" by (simp add: eq)
  show "books (snd (add_diary io d s)) = books s" by (simp add: eq)
  show "diaries (snd (add_diary io d s))
          = dict_set (book_id d)
              ((case map_of (diaries s) (book_id d) of None \<Rightarrow> [] | Some ds \<Rightarrow> ds) @ [d])
              (diaries s)" by (simp add: eq)
  show "map_of (diaries (snd (add_diary io d s))) (book_id d)
          = Some ((case map_of (diaries s) (book_id d) of None \<Rightarrow> [] | Some ds \<Rightarrow> ds) @ [d])"
    by (simp add: eq map_of_dict_set)
  show "\<forall>k. k \<noteq> book_id d \<longrightarrow>
            map_of (diaries (snd (add_diary io d s))) k = map_of (diaries s) k"
    by (simp add: eq map_of_dict_set)
  show "data_file (snd (add_diary io d s)) = Parsed (dump_data (snd (add_diary io d s)))"
    if "io = Written"
    using that by (simp add: add_diary_known [OF h] save_data_def)
qed

theorem add_diary_spec_witness:
  "dict_has (book_id (entry ''D1'' (at_time 2024 5 1 0))) (books dune_store)
   \<and> fst (add_diary Written (entry ''D1'' (at_time 2024 5 1 0)) dune_store) = Inr ''D1''
   \<and> diaries (snd (add_diary Written (entry ''D1'' (at_time 2024 5 1 0)) dune_store))
       = [(''B1'', [entry ''D1'' (at_time 2024 5 1 0)])]
   \<and> \<not> dict_has (book_id (entry ''D1'' (at_time 2024 5 1 0))) (books empty_store)
   \<and> add_diary Written (entry ''D1'' (at_time 2024 5 1 0)) empty_store
       = (Inl ValueError, empty_store)"
  using add_diary_spec [of "entry ''D1'' (at_time 2024 5 1 0)" dune_store Written]
        add_diary_spec [of "entry ''D1'' (at_time 2024 5 1 0)" empty_store Written]
  by (simp add: example_defs)

section \<open>Round trip of a Book\<close>

text \<open>
  C7. For every Book whose id is a non-empty string (as every Book the constructor builds
  has), \<open>from_dict (to_dict b)\<close> returns a Book equal to \<open>b\<close> in every field, the id
  included, whatever \<open>uuid4\<close> would generate.
\<close>

theorem Book_round_trip:
  "Book_id b \<noteq> [] \<Longrightarrow> Book_from_dict uuid4 (Book_to_dict b) = Decoded b"
  by (simp add: Book_from_dict_def Book_to_dict_def Book_init_def as_str_def as_int_def
                id_arg_def truthy_def)

theorem Book_round_trip_witness:
  "Book_id \<lparr>Book_id = ''B1'', title = ''Dune'', author = ''Herbert'',
            published_year = 1965, genre = [], memo = []\<rparr> \<noteq> []
   \<and> Book_from_dict ''fresh''
        (Book_to_dict \<lparr>Book_id = ''B1'', title = ''Dune'', author = ''Herbert'',
                       published_year = 1965, genre = [], memo = []\<rparr>)
     = Decoded \<lparr>Book_id = ''B1'', title = ''Dune'', author = ''Herbert'',
                published_year = 1965, genre = [], memo = []\<rparr>"
  using Book_round_trip [of "\<lparr>Book_id = ''B1'', title = ''Dune'', author = ''Herbert'',
            published_year = 1965, genre = [], memo = []\<rparr>" "''fresh''"]
  by simp

section \<open>Diaries of a book\<close>

lemma dt_key_eq: "dt_key a = dt_key b \<longleftrightarrow> a = b"
  by (cases a, cases b) (auto simp: dt_key_def)

lemma mset_sorted_reverse: "mset (sorted_reverse f xs) = mset xs"
  by (simp add: sorted_reverse_def)

lemma sorted_sorted_reverse: "sorted_wrt (\<lambda>a b. f b \<le> f a) (sorted_reverse f xs)"
proof -
  have "sorted (map f (sort_key f (rev xs)))" by (rule sorted_sort_key)
  then have "sorted_wrt (\<lambda>a b. f a \<le> f b) (sort_key f (rev xs))"
    by (simp add: sorted_map)
  then show ?thesis
    by (simp add: sorted_reverse_def sorted_wrt_rev)
qed

lemma stable_sorted_reverse:
  "filter (\<lambda>y. f y = k) (sorted_reverse f xs) = filter (\<lambda>y. f y = k) xs"
proof -
  have "filter (\<lambda>y. f y = k) (sort_key f (rev xs)) = filter (\<lambda>y. f y = k) (rev xs)"
    by (rule sort_key_stable)
  then show ?thesis
    by (simp add: sorted_reverse_def rev_filter [symmetric])
qed

lemma get_diaries_known:
  "map_of (diaries s) bid = Some ds \<Longrightarrow>
   get_diaries_for_book bid s = sorted_reverse (\<lambda>d. dt_key (date d)) ds"
  by (simp add: get_diaries_for_book_def dict_has_iff)

text \<open>
  C2. \<open>get_diaries_for_book\<close> returns the empty list when the id is not a key of
  \<open>diaries\<close>. Otherwise its result has exactly the entries stored for the book (as a
  multiset), is in descending order of date, and for every date the entries of that date
  come in the order in which they are stored.
\<close>

theorem get_diaries_for_book_spec:
  "(\<not> dict_has bid (diaries s) \<longrightarrow> get_diaries_for_book bid s = [])
   \<and> (\<forall>ds. map_of (diaries s) bid = Some ds \<longrightarrow>
         mset (get_diaries_for_book bid s) = mset ds
       \<and> sorted_wrt (\<lambda>a b. dt_key (date b) \<le> dt_key (date a)) (get_diaries_for_book bid s)
       \<and> (\<forall>t. filter (\<lambda>d. date d = t) (get_diaries_for_book bid s)
                = filter (\<lambda>d. date d = t) ds))"
proof (intro conjI impI allI)
  assume "\<not> dict_has bid (diaries s)"
  then show "get_diaries_for_book bid s = []" by (simp add: get_diaries_for_book_def)
next
  fix ds assume h: "map_of (diaries s) bid = Some ds"
  show "mset (get_diaries_for_book bid s) = mset ds"
    by (simp add: get_diaries_known [OF h] mset_sorted_reverse)
  show "sorted_wrt (\<lambda>a b. dt_key (date b) \<le> dt_key (date a)) (get_diaries_for_book bid s)"
    unfolding get_diaries_known [OF h] by (rule sorted_sorted_reverse)
  fix t
  have "filter (\<lambda>d. dt_key (date d) = dt_key t) (sorted_reverse (\<lambda>d. dt_key (date d)) ds)
        = filter (\<lambda>d. dt_key (date d) = dt_key t) ds"
    by (rule stable_sorted_reverse)
  then show "filter (\<lambda>d. date d = t) (get_diaries_for_book bid s) = filter (\<lambda>d. date d = t) ds"
    by (simp add: get_diaries_known [OF h] dt_key_eq)
qed

theorem get_diaries_for_book_spec_witness:
  "\<not> dict_has ''B2'' (diaries shelf)
   \<and> get_diaries_for_book ''B2'' shelf = []
   \<and> map_of (diaries shelf) ''B1''
       = Some [entry ''D1'' (at_time 2024 1 1 0), entry ''D2'' (at_time 2024 3 1 0),
               entry ''D3'' (at_time 2024 2 1 0), entry ''D4'' (at_time 2024 3 1 0)]
   \<and> get_diaries_for_book ''B1'' shelf
       = [entry ''D2'' (at_time 2024 3 1 0), entry ''D4'' (at_time 2024 3 1 0),
          entry ''D3'' (at_time 2024 2 1 0), entry ''D1'' (at_time 2024 1 1 0)]"
  using get_diaries_for_book_spec [of "''B2''" shelf]
        get_diaries_for_book_spec [of "''B1''" shelf]
  by (simp add: shelf_def entry_def at_time_def dict_has_def get_diaries_for_book_def
                sorted_reverse_def dt_key_def)

section \<open>Round trip of a Diary\<close>

lemma digit_val_nth:
  assumes "m < 10"
  shows "digit_val (''0123456789'' ! m) = Some m"
proof -
  from assms have "m = 0 \<or> m = 1 \<or> m = 2 \<or> m = 3 \<or> m = 4 \<or> m = 5 \<or> m = 6 \<or> m = 7 \<or> m = 8 \<or> m = 9"
    by arith
  then show ?thesis
    by (elim disjE) (simp_all add: digit_val_def)
qed

lemma digit_val_digit_char: "digit_val (digit_char n) = Some (n mod 10)"
  by (simp add: digit_char_def digit_val_nth)

lemma digit_num_digit_char [simp]: "digit_num (digit_char n) = n mod 10"
  by (simp add: digit_num_def digit_val_digit_char)

lemma is_digit_digit_char [simp]: "is_digit (digit_char n)"
  by (simp add: is_digit_def digit_val_digit_char)

lemma four_digits:
  fixes y :: nat
  assumes "y < 10000"
  shows "1000 * (y div 1000 mod 10) + 100 * (y div 100 mod 10) + 10 * (y div 10 mod 10) + y mod 10 = y"
proof -
  define q1 where "q1 = y div 10"
  define q2 where "q2 = q1 div 10"
  define q3 where "q3 = q2 div 10"
  have e1: "y = 10 * q1 + y mod 10" by (simp add: q1_def)
  have e2: "q1 = 10 * q2 + q1 mod 10" by (simp add: q2_def)
  have e3: "q2 = 10 * q3 + q2 mod 10" by (simp add: q3_def)
  have h2: "y div 100 = q2" by (simp add: q2_def q1_def div_mult2_eq [symmetric])
  have h3: "y div 1000 = q3" by (simp add: q3_def q2_def q1_def div_mult2_eq [symmetric])
  have "q3 < 10" using assms h3 by (simp add: less_mult_imp_div_less)
  then have m3: "q3 mod 10 = q3" by simp
  have "1000 * q3 + 100 * (q2 mod 10) + 10 * (q1 mod 10) + y mod 10 = y"
    using e1 e2 e3 by linarith
  then show ?thesis by (simp add: h2 h3 m3 q1_def [symmetric])
qed

lemma parse_year_four:
  "y < 10000 \<Longrightarrow>
   parse_year ([digit_char (y div 1000), digit_char (y div 100), digit_char (y div 10),
                digit_char y] @ rest) = Some (y, rest)"
  using four_digits [of y] by simp

lemma decimal_four:
  assumes "1000 \<le> y" and "y < 10000"
  shows "decimal y = [digit_char (y div 1000), digit_char (y div 100), digit_char (y div 10),
                      digit_char y]"
proof -
  have d2: "y div 10 div 10 = y div 100" by (simp add: div_mult2_eq [symmetric])
  have d3: "y div 100 div 10 = y div 1000" by (simp add: div_mult2_eq [symmetric])
  from assms have a: "\<not> y < 10" and b: "\<not> y div 10 < 10" and c: "\<not> y div 100 < 10"
    and d: "y div 1000 < 10"
    by (simp_all add: less_mult_imp_div_less)
  have "decimal (y div 1000) = [digit_char (y div 1000)]"
    using d by (subst decimal.simps) simp
  then have "decimal (y div 100) = [digit_char (y div 1000), digit_char (y div 100)]"
    using c by (subst decimal.simps) (simp add: d3)
  then have "decimal (y div 10)
               = [digit_char (y div 1000), digit_char (y div 100), digit_char (y div 10)]"
    using b by (subst decimal.simps) (simp add: d2)
  then show ?thesis
    using a by (subst decimal.simps) simp
qed

lemma month_cases:
  "1 \<le> m \<Longrightarrow> m \<le> 12 \<Longrightarrow>
   m = 1 \<or> m = 2 \<or> m = 3 \<or> m = 4 \<or> m = 5 \<or> m = 6 \<or> m = 7 \<or> m = 8 \<or> m = 9
   \<or> m = 10 \<or> m = 11 \<or> m = (12::nat)"
  by arith

lemma parse_month_pad2:
  assumes "1 \<le> m" "m \<le> 12"
  shows "parse_month (pad2 m @ rest) = Some (m, rest)"
  using month_cases [OF assms]
  by (elim disjE)
     (simp_all add: pad2_def digit_char_def nonzero_digit_def digit_num_def digit_val_def)

lemma day_cases:
  "1 \<le> d \<Longrightarrow> d \<le> 31 \<Longrightarrow>
   d = 1 \<or> d = 2 \<or> d = 3 \<or> d = 4 \<or> d = 5 \<or> d = 6 \<or> d = 7 \<or> d = 8 \<or> d = 9
   \<or> d = 10 \<or> d = 11 \<or> d = 12 \<or> d = 13 \<or> d = 14 \<or> d = 15 \<or> d = 16 \<or> d = 17
   \<or> d = 18 \<or> d = 19 \<or> d = 20 \<or> d = 21 \<or> d = 22 \<or> d = 23 \<or> d = 24 \<or> d = 25
   \<or> d = 26 \<or> d = 27 \<or> d = 28 \<or> d = 29 \<or> d = 30 \<or> d = (31::nat)"
  by arith

lemma parse_day_pad2:
  assumes "1 \<le> d" "d \<le> 31"
  shows "parse_day (pad2 d) = Some (d, [])"
  using day_cases [OF assms]
  by (elim disjE)
     (simp_all add: pad2_def digit_char_def nonzero_digit_def digit_num_def digit_val_def
                    is_digit_def)

lemma days_in_month_le: "days_in_month y m \<le> 31"
  by (simp add: days_in_month_def)

lemma strptime_strftime:
  assumes "valid_datetime dt" and "1000 \<le> year dt"
  shows "strptime (strftime dt) = Some (midnight dt)"
proof -
  from assms have y: "year dt < 10000" "1 \<le> year dt"
    and m: "1 \<le> month dt" "month dt \<le> 12"
    and d: "1 \<le> day dt" "day dt \<le> days_in_month (year dt) (month dt)"
    by (simp_all add: valid_datetime_def)
  from d(2) have d31: "day dt \<le> 31" using days_in_month_le [of "year dt" "month dt"] by linarith
  have sf: "strftime dt
              = [digit_char (year dt div 1000), digit_char (year dt div 100),
                 digit_char (year dt div 10), digit_char (year dt)]
                @ (CHR ''-'' # pad2 (month dt) @ CHR ''-'' # pad2 (day dt))"
    by (simp add: strftime_def decimal_four [OF assms(2) y(1)])
  have py: "parse_year (strftime dt)
              = Some (year dt, CHR ''-'' # pad2 (month dt) @ CHR ''-'' # pad2 (day dt))"
    unfolding sf by (rule parse_year_four [OF y(1)])
  have pm: "parse_month (pad2 (month dt) @ CHR ''-'' # pad2 (day dt))
              = Some (month dt, CHR ''-'' # pad2 (day dt))"
    by (rule parse_month_pad2 [OF m])
  have pd: "parse_day (pad2 (day dt)) = Some (day dt, [])"
    by (rule parse_day_pad2 [OF d(1) d31])
  have "strptime (strftime dt)
          = Some \<lparr>year = year dt, month = month dt, day = day dt,
                   hour = 0, minute = 0, second = 0, microsecond = 0\<rparr>"
    using y(2) d(2) by (simp add: strptime_def py pm pd)
  then show ?thesis
    by (cases dt) (simp add: midnight_def)
qed

lemma no_time_midnight [simp]: "no_time (midnight dt)"
  by (simp add: no_time_def midnight_def)

lemma midnight_no_time: "no_time dt \<Longrightarrow> midnight dt = dt"
  by (cases dt) (simp add: no_time_def midnight_def)

lemma length_strftime:
  "1000 \<le> year dt \<Longrightarrow> year dt < 10000 \<Longrightarrow> length (strftime dt) = 10"
  by (simp add: strftime_def decimal_four pad2_def)

lemma Diary_from_to_dict:
  assumes "Diary_id d \<noteq> []" and "valid_datetime (date d)" and "1000 \<le> year (date d)"
  shows "Diary_from_dict uuid4 now (Diary_to_dict d) = Decoded (d\<lparr>date := midnight (date d)\<rparr>)"
  using assms
  by (cases d)
     (simp add: Diary_from_dict_def Diary_to_dict_def Diary_init_def as_str_def id_arg_def
                truthy_def strptime_strftime)

lemmas date_defs =
  strptime_def strftime_def decimal.simps pad2_def digit_char_def digit_val_def digit_num_def
  is_digit_def nonzero_digit_def days_in_month_def is_leap_def valid_datetime_def no_time_def

text \<open>
  C3, as stated, fails in two ways. The year is written without leading zeros, so a valid
  calendar date before the year 1000 is written with fewer than four digits, which
  \<open>strptime\<close> refuses: \<open>from_dict (to_dict d)\<close> raises \<open>ValueError\<close>. And a
  date that carries a time of day comes back at midnight, so that the Diary read is not
  the Diary written.
\<close>

theorem Diary_round_trip_fails:
  "valid_datetime (at_time 999 1 1 0) \<and> no_time (at_time 999 1 1 0)
   \<and> strftime (at_time 999 1 1 0) = ''999-01-01''
   \<and> strptime ''999-01-01'' = None
   \<and> Diary_from_dict ''fresh'' (at_time 2026 1 1 9) (Diary_to_dict (entry ''D1'' (at_time 999 1 1 0)))
       = Raised ValueError
   \<and> valid_datetime (at_time 2024 5 1 10)
   \<and> Diary_from_dict ''fresh'' (at_time 2026 1 1 9) (Diary_to_dict (entry ''D1'' (at_time 2024 5 1 10)))
       = Decoded (entry ''D1'' (at_time 2024 5 1 0))
   \<and> entry ''D1'' (at_time 2024 5 1 0) \<noteq> entry ''D1'' (at_time 2024 5 1 10)"
  by (simp add: at_time_def entry_def date_defs Diary_from_dict_def Diary_to_dict_def
                Diary_init_def as_str_def id_arg_def truthy_def)

text \<open>
  C3, amended. For a valid date of the year 1000 or later the date string is the ten
  characters of \<open>YYYY-MM-DD\<close>, and reading it back gives the same calendar date with
  no time of day. For a Diary with a non-empty id and such a date,
  \<open>from_dict (to_dict d)\<close> is \<open>d\<close> with its date cut to midnight; when the date of \<open>d\<close>
  has no time of day, as a calendar date has, it is \<open>d\<close> itself, in every field.
\<close>

theorem Diary_round_trip:
  "(valid_datetime dt \<and> 1000 \<le> year dt \<longrightarrow>
      strptime (strftime dt) = Some (midnight dt) \<and> no_time (midnight dt)
      \<and> length (strftime dt) = 10)
   \<and> (Diary_id d \<noteq> [] \<and> valid_datetime (date d) \<and> 1000 \<le> year (date d) \<longrightarrow>
        Diary_from_dict uuid4 now (Diary_to_dict d) = Decoded (d\<lparr>date := midnight (date d)\<rparr>))
   \<and> (Diary_id d \<noteq> [] \<and> valid_datetime (date d) \<and> 1000 \<le> year (date d)
        \<and> no_time (date d) \<longrightarrow>
        Diary_from_dict uuid4 now (Diary_to_dict d) = Decoded d)"
proof (intro conjI impI)
  assume "valid_datetime dt \<and> 1000 \<le> year dt"
  then show "strptime (strftime dt) = Some (midnight dt)" by (simp add: strptime_strftime)
next
  show "no_time (midnight dt)" by simp
next
  assume "valid_datetime dt \<and> 1000 \<le> year dt"
  then show "length (strftime dt) = 10"
    by (simp add: length_strftime valid_datetime_def)
next
  assume "Diary_id d \<noteq> [] \<and> valid_datetime (date d) \<and> 1000 \<le> year (date d)"
  then show "Diary_from_dict uuid4 now (Diary_to_dict d)
               = Decoded (d\<lparr>date := midnight (date d)\<rparr>)"
    by (simp add: Diary_from_to_dict)
next
  assume h: "Diary_id d \<noteq> [] \<and> valid_datetime (date d) \<and> 1000 \<le> year (date d)
               \<and> no_time (date d)"
  then have "Diary_from_dict uuid4 now (Diary_to_dict d)
               = Decoded (d\<lparr>date := midnight (date d)\<rparr>)"
    by (simp add: Diary_from_to_dict)
  with h show "Diary_from_dict uuid4 now (Diary_to_dict d) = Decoded d"
    by (simp add: midnight_no_time)
qed

theorem Diary_round_trip_witness:
  "valid_datetime (at_time 2024 5 1 10) \<and> 1000 \<le> year (at_time 2024 5 1 10)
   \<and> strptime (strftime (at_time 2024 5 1 10)) = Some (at_time 2024 5 1 0)
   \<and> strftime (at_time 2024 5 1 10) = ''2024-05-01''
   \<and> Diary_id (entry ''D1'' (at_time 2024 5 1 0)) \<noteq> []
   \<and> valid_datetime (date (entry ''D1'' (at_time 2024 5 1 0)))
   \<and> no_time (date (entry ''D1'' (at_time 2024 5 1 0)))
   \<and> Diary_from_dict ''fresh'' (at_time 2026 1 1 9) (Diary_to_dict (entry ''D1'' (at_time 2024 5 1 0)))
       = Decoded (entry ''D1'' (at_time 2024 5 1 0))"
  using Diary_round_trip [of "at_time 2024 5 1 10" "entry ''D1'' (at_time 2024 5 1 0)"
                             "''fresh''" "at_time 2026 1 1 9"]
  by (simp add: at_time_def entry_def valid_datetime_def days_in_month_def no_time_def
                midnight_def strftime_def decimal.simps pad2_def digit_char_def)

section \<open>Deleting a book\<close>

lemma dict_del_absent: "\<not> dict_has k d \<Longrightarrow> dict_del k d = d"
  by (induction d) (auto simp: dict_del_def dict_has_def)

lemma delete_book_known:
  assumes "dict_has bid (books s)"
  shows "delete_book io bid s =
    (True, snd (save_data io (s\<lparr>books := dict_del bid (books s),
                                 diaries := dict_del bid (diaries s)\<rparr>)))"
  using assms by (simp add: delete_book_def Let_def dict_del_absent)

lemma get_diaries_absent: "\<not> dict_has bid (diaries s) \<Longrightarrow> get_diaries_for_book bid s = []"
  by (simp add: get_diaries_for_book_def)

text \<open>
  C6. For an id that is not a key of \<open>books\<close>, \<open>delete_book\<close> returns \<open>False\<close> and the
  state, the file included, is what it was. For an id that is, it returns \<open>True\<close>; the
  book is gone from \<open>books\<close> and from the list of all books, whose other entries keep
  their order; the diary list of the id is gone from \<open>diaries\<close>, so that
  \<open>get_diaries_for_book\<close> returns the empty list for it; every other key keeps its book
  and its diaries; and the file written holds the dump of the new state.
\<close>

theorem delete_book_spec:
  "(\<not> dict_has bid (books s) \<longrightarrow> delete_book io bid s = (False, s))
   \<and> (dict_has bid (books s) \<longrightarrow>
        fst (delete_book io bid s) = True
      \<and> books (snd (delete_book io bid s)) = dict_del bid (books s)
      \<and> get_all_books (snd (delete_book io bid s))
          = map snd (filter (\<lambda>p. fst p \<noteq> bid) (books s))
      \<and> \<not> dict_has bid (books (snd (delete_book io bid s)))
      \<and> diaries (snd (delete_book io bid s)) = dict_del bid (diaries s)
      \<and> \<not> dict_has bid (diaries (snd (delete_book io bid s)))
      \<and> get_diaries_for_book bid (snd (delete_book io bid s)) = []
      \<and> (\<forall>k. k \<noteq> bid \<longrightarrow>
            map_of (books (snd (delete_book io bid s))) k = map_of (books s) k
          \<and> map_of (diaries (snd (delete_book io bid s))) k = map_of (diaries s) k)
      \<and> (io = Written \<longrightarrow>
            data_file (snd (delete_book io bid s))
              = Parsed (dump_data (snd (delete_book io bid s)))))"
proof (intro conjI impI allI)
  assume "\<not> dict_has bid (books s)"
  then show "delete_book io bid s = (False, s)" by (simp add: delete_book_def)
next
  assume h: "dict_has bid (books s)"
  note eq = delete_book_known [OF h]
  show "fst (delete_book io bid s) = True" by (simp add: eq)
  show "books (snd (delete_book io bid s)) = dict_del bid (books s)" by (simp add: eq)
  show "get_all_books (snd (delete_book io bid s))
          = map snd (filter (\<lambda>p. fst p \<noteq> bid) (books s))"
    by (simp add: eq get_all_books_def dict_del_def)
  show "\<not> dict_has bid (books (snd (delete_book io bid s)))"
    by (simp add: eq dict_has_dict_del)
  show "diaries (snd (delete_book io bid s)) = dict_del bid (diaries s)" by (simp add: eq)
  show nd: "\<not> dict_has bid (diaries (snd (delete_book io bid s)))"
    by (simp add: eq dict_has_dict_del)
  show "get_diaries_for_book bid (snd (delete_book io bid s)) = []"
    using nd by (rule get_diaries_absent)
  show "map_of (books (snd (delete_book io bid s))) k = map_of (books s) k" if "k \<noteq> bid" for k
    using that by (simp add: eq map_of_dict_del)
  show "map_of (diaries (snd (delete_book io bid s))) k = map_of (diaries s) k" if "k \<noteq> bid" for k
    using that by (simp add: eq map_of_dict_del)
  show "data_file (snd (delete_book io bid s)) = Parsed (dump_data (snd (delete_book io bid s)))"
    if "io = Written"
    using that by (simp add: eq save_data_def)
qed

theorem delete_book_spec_witness:
  "\<not> dict_has ''B2'' (books dune_read)
   \<and> delete_book Written ''B2'' dune_read = (False, dune_read)
   \<and> dict_has ''B1'' (books dune_read)
   \<and> fst (delete_book Written ''B1'' dune_read) = True
   \<and> get_all_books (snd (delete_book Written ''B1'' dune_read)) = []
   \<and> diaries (snd (delete_book Written ''B1'' dune_read)) = []
   \<and> get_diaries_for_book ''B1'' (snd (delete_book Written ''B1'' dune_read)) = []
   \<and> get_diaries_for_book ''B1'' dune_read = [entry ''D1'' (at_time 2024 5 1 0)]"
  using delete_book_spec [of "''B2''" dune_read Written]
        delete_book_spec [of "''B1''" dune_read Written]
  by (simp add: dune_read_def example_defs add_diary_def delete_book_def dict_del_def
                get_all_books_def get_diaries_for_book_def sorted_reverse_def)

section \<open>Adding a book\<close>

lemma add_book_eq:
  "add_book io b s =
    (Book_id b,
     snd (save_data io
       (s\<lparr>books := dict_set (Book_id b) b (books s),
          diaries := (if dict_has (Book_id b) (diaries s) then diaries s
                      else dict_set (Book_id b) [] (diaries s))\<rparr>)))"
  by (simp add: add_book_def Let_def)

text \<open>
  C8, as stated, fails where the id is already in use: adding a book under the id of a
  book that has a diary entry leaves that entry in place, so the diary list of the id is
  not empty afterwards.
\<close>

theorem add_book_keeps_diaries:
  "map_of (diaries (snd (add_book Written dune dune_read))) (Book_id dune)
     = Some [entry ''D1'' (at_time 2024 5 1 0)]
   \<and> map_of (diaries (snd (add_book Written dune dune_read))) (Book_id dune) \<noteq> Some []"
  by (simp add: dune_read_def example_defs add_diary_def)

text \<open>
  C8, amended. \<open>add_book\<close> returns the id of the book and stores the book under it,
  replacing a book already there and leaving every other book alone; afterwards a diary
  list exists for the id: the list that was there, with its entries, or a new empty one
  when there was none; the diaries of every other key are untouched; and the file written
  holds the dump of the new state.
\<close>

theorem add_book_spec:
  "fst (add_book io b s) = Book_id b
   \<and> books (snd (add_book io b s)) = dict_set (Book_id b) b (books s)
   \<and> map_of (books (snd (add_book io b s))) (Book_id b) = Some b
   \<and> (\<forall>k. k \<noteq> Book_id b \<longrightarrow>
         map_of (books (snd (add_book io b s))) k = map_of (books s) k
       \<and> map_of (diaries (snd (add_book io b s))) k = map_of (diaries s) k)
   \<and> map_of (diaries (snd (add_book io b s))) (Book_id b)
       = Some (case map_of (diaries s) (Book_id b) of None \<Rightarrow> [] | Some ds \<Rightarrow> ds)
   \<and> (\<not> dict_has (Book_id b) (diaries s) \<longrightarrow>
         map_of (diaries (snd (add_book io b s))) (Book_id b) = Some [])
   \<and> (io = Written \<longrightarrow>
         data_file (snd (add_book io b s)) = Parsed (dump_data (snd (add_book io b s))))"
proof (intro conjI impI allI)
  show "fst (add_book io b s) = Book_id b" by (simp add: add_book_eq)
  show "books (snd (add_book io b s)) = dict_set (Book_id b) b (books s)"
    by (simp add: add_book_eq)
  show "map_of (books (snd (add_book io b s))) (Book_id b) = Some b"
    by (simp add: add_book_eq map_of_dict_set)
  show "map_of (books (snd (add_book io b s))) k = map_of (books s) k" if "k \<noteq> Book_id b" for k
    using that by (simp add: add_book_eq map_of_dict_set)
  show "map_of (diaries (snd (add_book io b s))) k = map_of (diaries s) k" if "k \<noteq> Book_id b" for k
    using that by (simp add: add_book_eq map_of_dict_set)
  show "map_of (diaries (snd (add_book io b s))) (Book_id b)
          = Some (case map_of (diaries s) (Book_id b) of None \<Rightarrow> [] | Some ds \<Rightarrow> ds)"
    by (auto simp: add_book_eq map_of_dict_set dict_has_iff)
  show "map_of (diaries (snd (add_book io b s))) (Book_id b) = Some []"
    if "\<not> dict_has (Book_id b) (diaries s)"
    using that by (simp add: add_book_eq map_of_dict_set)
  show "data_file (snd (add_book io b s)) = Parsed (dump_data (snd (add_book io b s)))"
    if "io = Written"
    using that by (simp add: add_book_eq save_data_def)
qed

theorem add_book_spec_witness:
  "fst (add_book Written dune empty_store) = ''B1''
   \<and> \<not> dict_has (Book_id dune) (diaries empty_store)
   \<and> get_all_books (snd (add_book Written dune empty_store)) = [dune]
   \<and> diaries (snd (add_book Written dune empty_store)) = [(''B1'', [])]
   \<and> books (snd (add_book Written (dune\<lparr>title := ''Dune Messiah''\<rparr>) dune_read))
       = [(''B1'', dune\<lparr>title := ''Dune Messiah''\<rparr>)]
   \<and> diaries (snd (add_book Written (dune\<lparr>title := ''Dune Messiah''\<rparr>) dune_read))
       = [(''B1'', [entry ''D1'' (at_time 2024 5 1 0)])]"
  using add_book_spec [of Written dune empty_store]
        add_book_spec [of Written "dune\<lparr>title := ''Dune Messiah''\<rparr>" dune_read]
  by (simp add: dune_read_def example_defs add_diary_def get_all_books_def)

section \<open>Searching with the empty query\<close>

lemma is_substring_empty [simp]: "is_substring [] s"
  by (cases s) simp_all

text \<open>
  C10. With the empty query \<open>search_books\<close> returns every book, in the order of
  \<open>get_all_books\<close>: the empty string occurs in every field.
\<close>

theorem search_books_empty_query: "search_books [] s = get_all_books s"
  by (simp add: search_books_def get_all_books_def lower_def)

theorem search_books_empty_query_witness:
  "search_books [] dune_read = [dune] \<and> get_all_books dune_read = [dune]"
  using search_books_empty_query [of dune_read]
  by (simp add: dune_read_def example_defs add_diary_def get_all_books_def)

section \<open>An invariant of the reachable states\<close>

lemma set_dict_set: "set (dict_set k v d) \<subseteq> insert (k, v) (set d)"
  by (induction d) auto

lemma entries_owned_iff:
  "entries_owned d \<longleftrightarrow> (\<forall>k ds x. (k, ds) \<in> set d \<longrightarrow> x \<in> set ds \<longrightarrow> book_id x = k)"
  unfolding entries_owned_def by fastforce

lemma entries_owned_lookup:
  "entries_owned d \<Longrightarrow> map_of d k = Some ds \<Longrightarrow> x \<in> set ds \<Longrightarrow> book_id x = k"
  unfolding entries_owned_iff by (blast dest: map_of_SomeD)

lemma entries_owned_dict_set:
  assumes "entries_owned d" and "\<forall>x \<in> set v. book_id x = k"
  shows "entries_owned (dict_set k v d)"
  unfolding entries_owned_iff
proof (intro allI impI)
  fix k' ds x
  assume "(k', ds) \<in> set (dict_set k v d)" and x: "x \<in> set ds"
  then have "(k', ds) = (k, v) \<or> (k', ds) \<in> set d"
    using set_dict_set [of k v d] by auto
  then show "book_id x = k'"
    using assms x unfolding entries_owned_iff by blast
qed

lemma entries_owned_dict_del: "entries_owned d \<Longrightarrow> entries_owned (dict_del k d)"
  unfolding entries_owned_iff dict_del_def by auto

lemma owned_diaries_save [simp]: "owned_diaries (snd (save_data io s)) = owned_diaries s"
  by (simp add: owned_diaries_def)

lemma owned_add_book:
  assumes "owned_diaries s"
  shows "owned_diaries (snd (add_book io b s))"
  using assms
  by (auto simp: add_book_eq owned_diaries_def dict_has_dict_set entries_owned_dict_set)

lemma owned_add_diary:
  assumes "owned_diaries s"
  shows "owned_diaries (snd (add_diary io d s))"
proof (cases "dict_has (book_id d) (books s)")
  case False
  with assms show ?thesis by (simp add: add_diary_unknown)
next
  case True
  let ?old = "case map_of (diaries s) (book_id d) of None \<Rightarrow> [] | Some ds \<Rightarrow> ds"
  from assms have eo: "entries_owned (diaries s)" by (simp add: owned_diaries_def)
  have "book_id x = book_id d" if "x \<in> set ?old" for x
  proof (cases "map_of (diaries s) (book_id d)")
    case None
    with that show ?thesis by simp
  next
    case (Some ds)
    with that have "x \<in> set ds" by simp
    with eo Some show ?thesis by (rule entries_owned_lookup)
  qed
  then have "\<forall>x \<in> set (?old @ [d]). book_id x = book_id d"
    by auto
  then have "entries_owned (dict_set (book_id d) (?old @ [d]) (diaries s))"
    by (rule entries_owned_dict_set [OF eo])
  with assms show ?thesis
    by (simp add: add_diary_known [OF True] owned_diaries_def dict_has_dict_set)
qed

lemma replace_diary_set:
  "replace_diary x ds = Some ds' \<Longrightarrow> set ds' \<subseteq> insert x (set ds)"
  by (induction ds arbitrary: ds') (auto split: if_splits)

lemma owned_update_diary:
  assumes "owned_diaries s"
  shows "owned_diaries (snd (update_diary io x s))"
proof (cases "map_of (diaries s) (book_id x)")
  case None
  with assms show ?thesis by (simp add: update_diary_def)
next
  case outer: (Some ds)
  from assms have eo: "entries_owned (diaries s)" by (simp add: owned_diaries_def)
  show ?thesis
  proof (cases "replace_diary x ds")
    case None
    with outer assms show ?thesis by (simp add: update_diary_def)
  next
    case (Some ds')
    have "\<forall>y \<in> set ds'. book_id y = book_id x"
      using replace_diary_set [OF Some] entries_owned_lookup [OF eo outer] by auto
    then have "entries_owned (dict_set (book_id x) ds' (diaries s))"
      by (rule entries_owned_dict_set [OF eo])
    with assms Some outer show ?thesis
      by (simp add: update_diary_def owned_diaries_def dict_has_dict_set)
  qed
qed

lemma remove_diary_set: "remove_diary i ds = Some ds' \<Longrightarrow> set ds' \<subseteq> set ds"
  by (induction ds arbitrary: ds') (auto split: if_splits)

lemma remove_from_dict_keys:
  "remove_from_dict i d = Some d' \<Longrightarrow> map fst d' = map fst d"
  by (induction i d arbitrary: d' rule: remove_from_dict.induct)
     (auto split: option.splits)

lemma remove_from_dict_owned:
  "remove_from_dict i d = Some d' \<Longrightarrow> entries_owned d \<Longrightarrow> entries_owned d'"
proof (induction i d arbitrary: d' rule: remove_from_dict.induct)
  case (1 i)
  then show ?case by simp
next
  case (2 i k ds rest)
  show ?case
  proof (cases "remove_diary i ds")
    case None
    with 2 obtain r where r: "remove_from_dict i rest = Some r" and d': "d' = (k, ds) # r"
      by auto
    from 2(3) have "entries_owned rest" unfolding entries_owned_iff by auto
    with 2(1) [OF None r] have "entries_owned r" by simp
    with 2(3) d' show ?thesis unfolding entries_owned_iff by auto
  next
    case (Some ds')
    with 2(2) have d': "d' = (k, ds') # rest" by simp
    from remove_diary_set [OF Some] 2(3) d' show ?thesis
      unfolding entries_owned_iff by auto
  qed
qed

lemma owned_delete_diary:
  assumes "owned_diaries s"
  shows "owned_diaries (snd (delete_diary io i s))"
proof (cases "remove_from_dict i (diaries s)")
  case None
  with assms show ?thesis by (simp add: delete_diary_def)
next
  case (Some d')
  have b: "dict_has k d' = dict_has k (diaries s)" for k
    by (simp add: dict_has_def remove_from_dict_keys [OF Some])
  from assms remove_from_dict_owned [OF Some] b Some show ?thesis
    by (simp add: delete_diary_def owned_diaries_def)
qed

lemma owned_delete_book:
  assumes "owned_diaries s"
  shows "owned_diaries (snd (delete_book io bid s))"
proof (cases "dict_has bid (books s)")
  case False
  with assms show ?thesis by (simp add: delete_book_def)
next
  case True
  from assms show ?thesis
    by (simp add: delete_book_known [OF True] owned_diaries_def dict_has_dict_del
                  entries_owned_dict_del)
qed

lemma reachable_owned: "reachable s \<Longrightarrow> owned_diaries s"
proof (induction rule: reachable.induct)
  case (empty f)
  show ?case by (simp add: owned_diaries_def entries_owned_def dict_has_def)
qed (simp_all add: owned_add_book owned_add_diary owned_update_diary owned_delete_diary
                   owned_delete_book)

text \<open>
  C9. In every state reached from the empty repository by \<open>add_book\<close>, \<open>add_diary\<close>,
  \<open>update_diary\<close>, \<open>delete_diary\<close> and \<open>delete_book\<close>, every entry in the list
  stored under a key of \<open>diaries\<close> has that key as its book id, and every key of
  \<open>books\<close> is a key of \<open>diaries\<close>.
\<close>

theorem reachable_diaries_owned:
  "reachable s \<Longrightarrow>
     (\<forall>(k, ds) \<in> set (diaries s). \<forall>d \<in> set ds. book_id d = k)
   \<and> (\<forall>k. dict_has k (books s) \<longrightarrow> dict_has k (diaries s))"
  using reachable_owned [of s] by (simp add: owned_diaries_def entries_owned_def)

lemma reachable_dune_read: "reachable dune_read"
  unfolding dune_read_def dune_store_def empty_store_def
  by (intro reachable.add_diary reachable.add_book reachable.empty)

theorem reachable_diaries_owned_witness:
  "reachable dune_read
   \<and> diaries dune_read = [(''B1'', [entry ''D1'' (at_time 2024 5 1 0)])]
   \<and> book_id (entry ''D1'' (at_time 2024 5 1 0)) = ''B1''
   \<and> dict_has ''B1'' (books dune_read) \<and> dict_has ''B1'' (diaries dune_read)"
proof -
  have r: "reachable dune_read" by (rule reachable_dune_read)
  have "diaries dune_read = [(''B1'', [entry ''D1'' (at_time 2024 5 1 0)])]
   \<and> book_id (entry ''D1'' (at_time 2024 5 1 0)) = ''B1''
   \<and> dict_has ''B1'' (books dune_read) \<and> dict_has ''B1'' (diaries dune_read)"
    using reachable_diaries_owned [OF r]
    by (simp add: dune_read_def example_defs add_diary_def)
  with r show ?thesis by (rule conjI)
qed

section \<open>Saving and loading\<close>

lemma Book_from_to_dict:
  "Book_id b \<noteq> [] \<Longrightarrow> Book_from_dict uuid4 (Book_to_dict b) = Decoded b"
  by (simp add: Book_from_dict_def Book_to_dict_def Book_init_def as_str_def as_int_def
                id_arg_def truthy_def)

lemma decode_list_map:
  "(\<And>i x. x \<in> set xs \<Longrightarrow> f i (h x) = Decoded x) \<Longrightarrow> decode_list f n (map h xs) = Decoded xs"
  by (induction xs arbitrary: n) simp_all

lemma section_items_books:
  "section_items ''books'' (dump_data s) = Inr (map (\<lambda>(k, b). (k, Book_to_dict b)) (books s))"
  by (simp add: section_items_def dump_data_def)

lemma section_items_diaries:
  "section_items ''diaries'' (dump_data s)
     = Inr (map (\<lambda>(k, ds). (k, JArr (map Diary_to_dict ds))) (diaries s))"
  by (simp add: section_items_def dump_data_def)

lemma decode_books_dump:
  assumes "\<forall>(k, b) \<in> set (books s). Book_id b \<noteq> []"
  shows "decode_books uuids (dump_data s) = Decoded (books s)"
proof -
  have "decode_list (\<lambda>i (k, v). map_decoded (Pair k) (Book_from_dict (uuids 0 i) v)) 0
          (map (\<lambda>(k, b). (k, Book_to_dict b)) (books s)) = Decoded (books s)"
  proof (rule decode_list_map)
    fix i x assume x: "x \<in> set (books s)"
    obtain k b where kb: "x = (k, b)" by (cases x)
    with assms x have "Book_id b \<noteq> []" by auto
    then show "(case (case x of (k, b) \<Rightarrow> (k, Book_to_dict b)) of
                 (k, v) \<Rightarrow> map_decoded (Pair k) (Book_from_dict (uuids 0 i) v)) = Decoded x"
      by (simp add: kb Book_from_to_dict)
  qed
  then show ?thesis by (simp add: decode_books_def section_items_books)
qed

lemma decode_diary_list:
  assumes "\<forall>d \<in> set ds. Diary_id d \<noteq> [] \<and> valid_datetime (date d)
                       \<and> 1000 \<le> year (date d) \<and> no_time (date d)"
  shows "decode_list (\<lambda>i x. Diary_from_dict (u i) now x) n (map Diary_to_dict ds) = Decoded ds"
proof (rule decode_list_map)
  fix i d assume "d \<in> set ds"
  with assms have h: "Diary_id d \<noteq> []" "valid_datetime (date d)" "1000 \<le> year (date d)"
    and nt: "no_time (date d)" by auto
  from h have "Diary_from_dict (u i) now (Diary_to_dict d)
                      = Decoded (d\<lparr>date := midnight (date d)\<rparr>)"
    by (rule Diary_from_to_dict)
  with nt show "Diary_from_dict (u i) now (Diary_to_dict d) = Decoded d"
    by (simp add: midnight_no_time)
qed

lemma decode_diaries_dump:
  assumes "\<forall>(k, ds) \<in> set (diaries s).
             \<forall>d \<in> set ds. Diary_id d \<noteq> [] \<and> valid_datetime (date d)
                          \<and> 1000 \<le> year (date d) \<and> no_time (date d)"
  shows "decode_diaries uuids now (dump_data s) = Decoded (diaries s)"
proof -
  have "decode_list
          (\<lambda>j (k, v). case py_iter v of None \<Rightarrow> Raised TypeError
             | Some xs \<Rightarrow> map_decoded (Pair k)
                 (decode_list (\<lambda>i x. Diary_from_dict (uuids (Suc j) i) now x) 0 xs))
          0 (map (\<lambda>(k, ds). (k, JArr (map Diary_to_dict ds))) (diaries s))
        = Decoded (diaries s)"
  proof (rule decode_list_map)
    fix j x assume x: "x \<in> set (diaries s)"
    obtain k ds where kd: "x = (k, ds)" by (cases x)
    with assms x
    have "\<forall>d \<in> set ds. Diary_id d \<noteq> [] \<and> valid_datetime (date d)
                        \<and> 1000 \<le> year (date d) \<and> no_time (date d)"
      by auto
    then have "decode_list (\<lambda>i x. Diary_from_dict (uuids (Suc j) i) now x) 0
                 (map Diary_to_dict ds) = Decoded ds"
      by (rule decode_diary_list)
    then show "(case (case x of (k, ds) \<Rightarrow> (k, JArr (map Diary_to_dict ds))) of
                 (k, v) \<Rightarrow> case py_iter v of None \<Rightarrow> Raised TypeError
                   | Some xs \<Rightarrow> map_decoded (Pair k)
                       (decode_list (\<lambda>i x. Diary_from_dict (uuids (Suc j) i) now x) 0 xs))
               = Decoded x"
      by (simp add: kd py_iter_def)
  qed
  then show ?thesis by (simp add: decode_diaries_def section_items_diaries)
qed

lemma load_after_save:
  assumes "calendar_store s"
  shows "load_data uuids now \<lparr>books = [], diaries = [], data_file = Parsed (dump_data s)\<rparr>
           = \<lparr>ok = True, books_after = Some (books s), diaries_after = Some (diaries s)\<rparr>"
proof -
  from assms have b: "decode_books uuids (dump_data s) = Decoded (books s)"
    unfolding calendar_store_def by (intro decode_books_dump) simp
  from assms have d: "decode_diaries uuids now (dump_data s) = Decoded (diaries s)"
    unfolding calendar_store_def by (intro decode_diaries_dump) simp
  show ?thesis
    by (simp add: load_data_def b d raises_def typed_def)
qed

lemma get_diaries_cong:
  "diaries s' = diaries s \<Longrightarrow> get_diaries_for_book k s' = get_diaries_for_book k s"
  by (simp add: get_diaries_for_book_def)

text \<open>
  C5, amended. For a store in which every book id and diary id is non-empty and every
  diary date is a valid calendar date of the year 1000 or later with no time of day,
  saving it and building a fresh repository from the file written gives a repository
  with the same books and the same diaries in the same order, so that \<open>get_all_books\<close>
  and, for every id, \<open>get_diaries_for_book\<close> return what they returned before the save.
\<close>

theorem save_load_round_trip:
  "calendar_store s \<Longrightarrow>
     BookManager_init uuids now (data_file (snd (save_data Written s)))
       = Some \<lparr>books = books s, diaries = diaries s, data_file = Parsed (dump_data s)\<rparr>
   \<and> get_all_books \<lparr>books = books s, diaries = diaries s, data_file = Parsed (dump_data s)\<rparr>
       = get_all_books s
   \<and> (\<forall>k. get_diaries_for_book k
             \<lparr>books = books s, diaries = diaries s, data_file = Parsed (dump_data s)\<rparr>
           = get_diaries_for_book k s)"
proof (intro conjI allI)
  assume cs: "calendar_store s"
  show "BookManager_init uuids now (data_file (snd (save_data Written s)))
       = Some \<lparr>books = books s, diaries = diaries s, data_file = Parsed (dump_data s)\<rparr>"
    by (simp add: BookManager_init_def save_data_def load_after_save [OF cs])
next
  show "get_all_books \<lparr>books = books s, diaries = diaries s, data_file = Parsed (dump_data s)\<rparr>
       = get_all_books s"
    by (simp add: get_all_books_def)
next
  fix k
  show "get_diaries_for_book k
             \<lparr>books = books s, diaries = diaries s, data_file = Parsed (dump_data s)\<rparr>
           = get_diaries_for_book k s"
    by (rule get_diaries_cong) simp
qed

lemmas load_defs =
  load_data_def decode_books_def decode_diaries_def section_items_def py_iter_def
  Book_from_dict_def Book_to_dict_def Book_init_def Diary_from_dict_def Diary_to_dict_def
  Diary_init_def as_str_def as_int_def id_arg_def truthy_def raises_def typed_def
  no_uuids_def BookManager_init_def

theorem save_load_round_trip_witness:
  "calendar_store shelf
   \<and> BookManager_init no_uuids (at_time 2026 1 1 9) (data_file (snd (save_data Written shelf)))
       = Some (shelf\<lparr>data_file := Parsed (dump_data shelf)\<rparr>)
   \<and> get_all_books (shelf\<lparr>data_file := Parsed (dump_data shelf)\<rparr>) = [dune]
   \<and> get_all_books shelf = [dune]"
proof -
  have cs: "calendar_store shelf"
    by (simp add: calendar_store_def shelf_def dune_def entry_def at_time_def date_defs)
  have "BookManager_init no_uuids (at_time 2026 1 1 9) (data_file (snd (save_data Written shelf)))
       = Some (shelf\<lparr>data_file := Parsed (dump_data shelf)\<rparr>)
   \<and> get_all_books (shelf\<lparr>data_file := Parsed (dump_data shelf)\<rparr>) = [dune]
   \<and> get_all_books shelf = [dune]"
    using save_load_round_trip [OF cs, of no_uuids "at_time 2026 1 1 9"]
    by (simp add: shelf_def get_all_books_def)
  with cs show ?thesis by (rule conjI)
qed

text \<open>
  C5, as stated, fails in two ways. A store may hold times of day, such as the
  constructor's default \<open>datetime.now()\<close> gives, and the file keeps the day only: two
  entries of the same day, written in the morning and in the evening, come back both at
  midnight, and \<open>get_diaries_for_book\<close>, which listed the evening entry first, lists it
  last. And a store may hold a date before the year 1000: the file holds that year with
  three digits, the load of the fresh repository raises on it, and the repository comes
  back with the books and without the diaries.
\<close>

theorem save_load_loses_time:
  "BookManager_init no_uuids (at_time 2026 1 1 9) (data_file (snd (save_data Written two_notes)))
     = Some \<lparr>books = [(''B1'', dune)],
             diaries = [(''B1'', [entry ''D1'' (at_time 2024 5 1 0),
                                  entry ''D2'' (at_time 2024 5 1 0)])],
             data_file = Parsed (dump_data two_notes)\<rparr>
   \<and> get_diaries_for_book ''B1'' two_notes
       = [entry ''D2'' (at_time 2024 5 1 18), entry ''D1'' (at_time 2024 5 1 9)]
   \<and> get_diaries_for_book ''B1''
         \<lparr>books = [(''B1'', dune)],
          diaries = [(''B1'', [entry ''D1'' (at_time 2024 5 1 0),
                               entry ''D2'' (at_time 2024 5 1 0)])],
          data_file = Parsed (dump_data two_notes)\<rparr>
       = [entry ''D1'' (at_time 2024 5 1 0), entry ''D2'' (at_time 2024 5 1 0)]
   \<and> get_diaries_for_book ''B1''
         \<lparr>books = [(''B1'', dune)],
          diaries = [(''B1'', [entry ''D1'' (at_time 2024 5 1 0),
                               entry ''D2'' (at_time 2024 5 1 0)])],
          data_file = Parsed (dump_data two_notes)\<rparr>
       \<noteq> get_diaries_for_book ''B1'' two_notes
   \<and> valid_datetime (at_time 999 1 1 0) \<and> no_time (at_time 999 1 1 0)
   \<and> BookManager_init no_uuids (at_time 2026 1 1 9)
         (data_file (snd (save_data Written old_notes)))
       = Some \<lparr>books = [(''B1'', dune)], diaries = [],
               data_file = Parsed (dump_data old_notes)\<rparr>
   \<and> get_diaries_for_book ''B1'' old_notes = [entry ''D1'' (at_time 999 1 1 0)]
   \<and> get_diaries_for_book ''B1''
         \<lparr>books = [(''B1'', dune)], diaries = [], data_file = Parsed (dump_data old_notes)\<rparr>
       = []"
  by (simp add: two_notes_def old_notes_def dune_def entry_def at_time_def save_data_def
                dump_data_def load_defs date_defs get_diaries_for_book_def dict_has_def
                sorted_reverse_def dt_key_def)

section \<open>A load that fails\<close>




end
